theory Spec2Isabelle
  imports Main
begin

section \<open>Errors\<close>

text \<open>
  The router raises the builtin \<open>ValueError\<close> for every registration failure (there is
  no dedicated exception class for a malformed template or a duplicate route in
  \<open>exceptions.py\<close>; only \<open>MissingRoute\<close> is declared there). The messages are kept
  as a datatype so that the raising line can be told from the value. The remaining
  constructors are the builtin exceptions that the code can raise implicitly: reading
  a slot that was never assigned, indexing an empty string, unpacking a value that is
  not iterable.
\<close>

datatype value_error =
    SingleCloseBrace          \<comment> \<open>stdlib: Single '}' encountered in format string\<close>
  | SingleOpenBrace           \<comment> \<open>stdlib: Single '{' encountered in format string\<close>
  | UnexpectedOpenBrace       \<comment> \<open>stdlib: unexpected '{' in field name\<close>
  | ExpectedCloseBrace        \<comment> \<open>stdlib: expected '}' before end of string\<close>
  | EndOfConversion           \<comment> \<open>stdlib: end of string while looking for conversion specifier\<close>
  | ExpectedColon             \<comment> \<open>stdlib: expected ':' after conversion specifier\<close>
  | UnmatchedOpenBrace        \<comment> \<open>stdlib: unmatched '{' in format spec\<close>
  | UnpackMismatch            \<comment> \<open>wrong number of values to unpack\<close>
  | MultipleCaptures          \<comment> \<open>router.py line 179\<close>
  | NoSpecNorConversion       \<comment> \<open>router.py line 192\<close>
  | MustBeNamed               \<comment> \<open>router.py line 195\<close>
  | SingleCapturePerSegment   \<comment> \<open>router.py line 200\<close>
  | AlreadyFound              \<comment> \<open>router.py lines 78 and 110\<close>

datatype error =
    ValueError value_error
  | AttributeError
  | IndexError
  | TypeError
  | MissingRoute

section \<open>The two library functions the route parser calls\<close>

subsection \<open>\<open>str.split('/')\<close>\<close>

text \<open>
  Splitting on a separator never returns the empty list: the empty string splits into
  one empty component, and every separator starts a new component.
\<close>

fun split_slash :: "string \<Rightarrow> string list" where
  "split_slash [] = [[]]"
| "split_slash (c # cs) =
     (if c = CHR ''/'' then [] # split_slash cs
      else (case split_slash cs of
              [] \<Rightarrow> [[c]]
            | x # xs \<Rightarrow> (c # x) # xs))"

subsection \<open>\<open>string.Formatter.parse\<close>\<close>

text \<open>
  \<open>string.Formatter().parse\<close> is CPython's markup iterator over a format string. Each
  item is the tuple \<open>(literal_text, field_name, format_spec, conversion)\<close>; the last
  three are \<open>None\<close> when no replacement field follows the literal text, and
  \<open>conversion\<close> is \<open>None\<close> when the field has no \<open>!c\<close> part.
\<close>

record parse_tuple =
  literal_text :: string
  field_name :: "string option"
  fmt_spec :: "string option"
  conversion :: "string option"

definition is_brace :: "char \<Rightarrow> bool" where
  "is_brace c = (c = CHR ''{'' \<or> c = CHR ''}'')"

text \<open>
  The field name runs up to the first \<open>}\<close>, \<open>:\<close> or \<open>!\<close>. An opening brace inside
  it is an error. After an opening bracket the characters up to the closing bracket are
  skipped unexamined (the flag is set while skipping); the closing bracket itself is
  then read as an ordinary character. The result is the name, the character that ended
  it and the text after that character.
\<close>

fun field_name_scan :: "bool \<Rightarrow> string \<Rightarrow> error + (string \<times> char \<times> string)" where
  "field_name_scan skipping [] = Inl (ValueError ExpectedCloseBrace)"
| "field_name_scan True (c # cs) =
     (case field_name_scan (c \<noteq> CHR '']'') cs of
        Inl e \<Rightarrow> Inl e
      | Inr (nm, t, rest) \<Rightarrow> Inr (c # nm, t, rest))"
| "field_name_scan False (c # cs) =
     (if c = CHR ''{'' then Inl (ValueError UnexpectedOpenBrace)
      else if c = CHR ''}'' \<or> c = CHR '':'' \<or> c = CHR ''!'' then Inr ([], c, cs)
      else (case field_name_scan (c = CHR ''['') cs of
              Inl e \<Rightarrow> Inl e
            | Inr (nm, t, rest) \<Rightarrow> Inr (c # nm, t, rest)))"

text \<open>
  The format spec runs up to the brace that closes the field, counting nested braces.
  The counter starts at one, so \<open>count\<close> here is the number of braces still open.
\<close>

fun format_spec_scan :: "nat \<Rightarrow> string \<Rightarrow> error + (string \<times> string)" where
  "format_spec_scan count [] = Inl (ValueError UnmatchedOpenBrace)"
| "format_spec_scan count (c # cs) =
     (if c = CHR ''}'' \<and> count - 1 = 0 then Inr ([], cs)
      else (case format_spec_scan
                   (if c = CHR ''{'' then count + 1
                    else if c = CHR ''}'' then count - 1 else count) cs of
              Inl e \<Rightarrow> Inl e
            | Inr (spec, rest) \<Rightarrow> Inr (c # spec, rest)))"

definition parse_field ::
  "string \<Rightarrow> error + (string \<times> string \<times> string option \<times> string)" where
  "parse_field s =
     (case field_name_scan False s of
        Inl e \<Rightarrow> Inl e
      | Inr (nm, t, rest) \<Rightarrow>
          if t = CHR ''}'' then Inr (nm, [], None, rest)
          else if t = CHR ''!'' then
            (case rest of
               [] \<Rightarrow> Inl (ValueError EndOfConversion)
             | cv # rest2 \<Rightarrow>
                 (case rest2 of
                    [] \<Rightarrow> Inl (ValueError UnmatchedOpenBrace)
                  | c # rest3 \<Rightarrow>
                      if c = CHR ''}'' then Inr (nm, [], Some [cv], rest3)
                      else if c \<noteq> CHR '':'' then Inl (ValueError ExpectedColon)
                      else (case format_spec_scan 1 rest3 of
                              Inl e \<Rightarrow> Inl e
                            | Inr (spec, rest4) \<Rightarrow> Inr (nm, spec, Some [cv], rest4))))
          else
            (case format_spec_scan 1 rest of
               Inl e \<Rightarrow> Inl e
             | Inr (spec, rest4) \<Rightarrow> Inr (nm, spec, None, rest4)))"

text \<open>
  One step of the iterator on a non-empty remainder: the literal text up to the first
  brace, then either the end of the string, a doubled (escaped) brace that is kept in
  the literal text and ends the item, or a replacement field.
\<close>

definition markup_next :: "string \<Rightarrow> error + (parse_tuple \<times> string)" where
  "markup_next s =
     (let lit = takeWhile (\<lambda>c. \<not> is_brace c) s
      in case dropWhile (\<lambda>c. \<not> is_brace c) s of
           [] \<Rightarrow>
             Inr (\<lparr>literal_text = lit, field_name = None, fmt_spec = None,
                   conversion = None\<rparr>, [])
         | c # rest \<Rightarrow>
             if c = CHR ''}'' \<and> (rest = [] \<or> hd rest \<noteq> c)
               then Inl (ValueError SingleCloseBrace)
             else if rest = [] then Inl (ValueError SingleOpenBrace)
             else if hd rest = c then
               Inr (\<lparr>literal_text = lit @ [c], field_name = None, fmt_spec = None,
                     conversion = None\<rparr>, tl rest)
             else
               (case parse_field rest of
                  Inl e \<Rightarrow> Inl e
                | Inr (nm, spec, cv, rest') \<Rightarrow>
                    Inr (\<lparr>literal_text = lit, field_name = Some nm,
                          fmt_spec = Some spec, conversion = cv\<rparr>, rest')))"

text \<open>
  \<open>list(_FORMATTER.parse(component))\<close> runs the iterator to its end, so an error at any
  item is the result of the whole call. Every item consumes at least one character.
\<close>

function markup_items :: "string \<Rightarrow> error + parse_tuple list" where
  "markup_items [] = Inr []"
| "markup_items (c # cs) =
     (case markup_next (c # cs) of
        Inl e \<Rightarrow> Inl e
      | Inr (t, rest) \<Rightarrow>
          (case markup_items rest of
             Inl e \<Rightarrow> Inl e
           | Inr ts \<Rightarrow> Inr (t # ts)))"
  by pat_completeness auto
termination
proof (relation "measure length")
  show "wf (measure length)" by simp
next
  fix c :: char and cs :: string and x :: "parse_tuple \<times> string"
    and t :: parse_tuple and rest :: string
  assume nxt: "markup_next (c # cs) = Inr x" and x: "(t, rest) = x"
  have scan: "length r < length s"
    if "field_name_scan b s = Inr (nm, e, r)" for b s nm e r
    using that
    by (induction b s arbitrary: nm rule: field_name_scan.induct)
       (fastforce split: if_splits sum.splits)+
  have spec: "length r < length s"
    if "format_spec_scan n s = Inr (sp, r)" for n s sp r
    using that
    by (induction n s arbitrary: sp rule: format_spec_scan.induct)
       (fastforce split: if_splits sum.splits)+
  have field: "length r < length s"
    if "parse_field s = Inr (nm, sp, cv, r)" for s nm sp cv r
    using that unfolding parse_field_def
    by (auto split: sum.splits if_splits list.splits prod.splits
             dest!: scan spec)
  have drop: "length (dropWhile (\<lambda>c. \<not> is_brace c) (c # cs)) \<le> Suc (length cs)"
    using length_dropWhile_le [of "\<lambda>c. \<not> is_brace c" "c # cs"] by simp
  have "length rest < Suc (length cs)"
  proof (cases "dropWhile (\<lambda>c. \<not> is_brace c) (c # cs)")
    case Nil
    with nxt x show ?thesis
      by (auto simp: markup_next_def Let_def)
  next
    case (Cons b after)
    with drop have la: "length after \<le> length cs" by simp
    from nxt x Cons show ?thesis
      using la
      by (auto simp: markup_next_def Let_def
               split: if_splits sum.splits prod.splits dest!: field)
  qed
  then show "(rest, c # cs) \<in> measure length" by simp
qed

definition formatter_parse :: "string \<Rightarrow> error + parse_tuple list" where
  "formatter_parse s = markup_items s"

section \<open>Route model\<close>

text \<open>
  A segment of a route is a plain string or a \<open>_CaptureSegment\<close>, the frozen dataclass
  with the single field \<open>name\<close>, compared by that field.
\<close>

datatype segment = Literal string | CaptureSegment (name: string)

datatype route_class = StaticRoute | DynamicRoute

text \<open>
  A route object. The classes declare \<open>__slots__\<close>, and a slot holds nothing until it
  is assigned: reading it before raises \<open>AttributeError\<close>. A slot is therefore an
  option, \<open>None\<close> for "never assigned". \<open>_Route.__eq__\<close> falls back to the identity of
  the objects when it cannot read the segments, so an object carries its identity
  \<open>oid\<close>, the address it was allocated at, which the caller of a constructor supplies.
  \<open>rhash\<close> is the slot \<open>_hash\<close>.
\<close>

record 'h route =
  oid :: nat
  cls :: route_class
  rhash :: int
  segments :: "segment list option"
  capture_map :: "(nat \<times> string) list option"
  handler :: "'h option"

subsection \<open>The state of a router\<close>

text \<open>
  A dict of the tree is keyed by strings and by the two sentinel objects. Under
  \<open>CAPTURE_SEGMENT\<close> and under a string it holds a dict of the next level; under
  \<open>TERMINATOR\<close> it holds a route object. The sentinels equal no string, so the entry
  under \<open>TERMINATOR\<close> is a field of its own and the other keys form a map to subtrees.
  Every dict of the tree is created at line 102 and linked from one parent only, so the
  in-place updates of the source are updates of the tree value.
\<close>

datatype tkey = Str string | CAPTURE_SEGMENT

datatype 'h node =
  Node (children: "tkey \<Rightarrow> 'h node option") (terminator: "'h route option")

record 'h router =
  static_lookup :: "('h route \<times> 'h) list"
  dynamic_lookup :: "'h node"

subsection \<open>Constructors and parsers\<close>

text \<open>
  \<open>_Route.__init__\<close> caches the hash of the segment tuple and assigns nothing else; in
  particular it does not assign \<open>segments\<close>. Python's \<open>hash\<close> of a tuple of strings
  differs from process to process, so it is the parameter \<open>hsh\<close>.
\<close>

definition route_init ::
  "(segment list \<Rightarrow> int) \<Rightarrow> nat \<Rightarrow> route_class \<Rightarrow> segment list \<Rightarrow> 'h route" where
  "route_init hsh a c segs =
     \<lparr>oid = a, cls = c, rhash = hsh segs, segments = None, capture_map = None,
      handler = None\<rparr>"

text \<open>
  The loop of \<open>_DynamicRoute.__init__\<close> unpacks every element of \<open>self.segments\<close> into
  \<open>index, segment\<close> (there is no \<open>enumerate\<close>). A string unpacks into its characters,
  so only a string of two characters unpacks, and then \<open>segment\<close> is a one-character
  string, never a capture; a \<open>_CaptureSegment\<close> is not iterable.
\<close>

fun capture_map_loop ::
  "segment list \<Rightarrow> (nat \<times> string) list \<Rightarrow> error + (nat \<times> string) list" where
  "capture_map_loop [] cm = Inr cm"
| "capture_map_loop (Literal s # segs) cm =
     (if length s = 2 then capture_map_loop segs cm
      else Inl (ValueError UnpackMismatch))"
| "capture_map_loop (CaptureSegment n # segs) cm = Inl TypeError"

definition dynamic_route_init ::
  "(segment list \<Rightarrow> int) \<Rightarrow> nat \<Rightarrow> segment list \<Rightarrow> error + 'h route" where
  "dynamic_route_init hsh a segs =
     (let self = route_init hsh a DynamicRoute segs
      in case segments self of
           None \<Rightarrow> Inl AttributeError
         | Some own \<Rightarrow>
             (case capture_map_loop own [] of
                Inl e \<Rightarrow> Inl e
              | Inr cm \<Rightarrow> Inr (self\<lparr>capture_map := Some cm\<rparr>)))"

text \<open>Truth value of a \<open>str\<close> or \<open>None\<close>: only a non-empty string is true.\<close>

fun truthy :: "string option \<Rightarrow> bool" where
  "truthy None = False"
| "truthy (Some s) = (s \<noteq> [])"

text \<open>The body of the loop of \<open>_Route.make\<close> for one component (lines 177 to 208).\<close>

definition make_component :: "string \<Rightarrow> error + segment" where
  "make_component component =
     (case formatter_parse component of
        Inl e \<Rightarrow> Inl e
      | Inr stdlib_tuples \<Rightarrow>
          if length stdlib_tuples > 1 then Inl (ValueError MultipleCaptures)
          else
            (case stdlib_tuples of
               [] \<Rightarrow> Inl (ValueError UnpackMismatch)
             | stdlib_tuple # _ \<Rightarrow>
                 if truthy (fmt_spec stdlib_tuple) \<or> truthy (conversion stdlib_tuple)
                   then Inl (ValueError NoSpecNorConversion)
                 else if field_name stdlib_tuple = Some []
                   then Inl (ValueError MustBeNamed)
                 else if literal_text stdlib_tuple = []
                   then Inl (ValueError SingleCapturePerSegment)
                 else
                   (case field_name stdlib_tuple of
                      None \<Rightarrow> Inr (Literal (literal_text stdlib_tuple))
                    | Some nm \<Rightarrow> Inr (CaptureSegment nm))))"

text \<open>The loop itself, carrying \<open>is_dynamic\<close> and the segments appended so far.\<close>

fun make_loop ::
  "string list \<Rightarrow> bool \<Rightarrow> segment list \<Rightarrow> error + (bool \<times> segment list)" where
  "make_loop [] is_dynamic segs = Inr (is_dynamic, segs)"
| "make_loop (component # components) is_dynamic segs =
     (case make_component component of
        Inl e \<Rightarrow> Inl e
      | Inr seg \<Rightarrow>
          make_loop components
            (case seg of Literal _ \<Rightarrow> is_dynamic | CaptureSegment _ \<Rightarrow> True)
            (segs @ [seg]))"

text \<open>The components of a path after the leading empty one is dropped.\<close>

definition route_components :: "string \<Rightarrow> string list" where
  "route_components path_str =
     (case split_slash path_str of
        [] \<Rightarrow> []
      | first # others \<Rightarrow> if first = [] then others else first # others)"

definition make :: "(segment list \<Rightarrow> int) \<Rightarrow> nat \<Rightarrow> string \<Rightarrow> error + 'h route" where
  "make hsh a path_str =
     (case make_loop (route_components path_str) False [] of
        Inl e \<Rightarrow> Inl e
      | Inr (is_dynamic, segs) \<Rightarrow>
          if is_dynamic then dynamic_route_init hsh a segs
          else Inr (route_init hsh a StaticRoute segs))"

text \<open>
  \<open>_StaticRoute.parse\<close>: indexing the first character of the empty string raises
  \<open>IndexError\<close>; every component becomes a segment unexamined.
\<close>

definition parse :: "(segment list \<Rightarrow> int) \<Rightarrow> nat \<Rightarrow> string \<Rightarrow> error + 'h route" where
  "parse hsh a well_formed_path =
     (case well_formed_path of
        [] \<Rightarrow> Inl IndexError
      | c # rest \<Rightarrow>
          Inr (route_init hsh a StaticRoute
                 (map Literal
                    (if c = CHR ''/'' then split_slash rest
                     else split_slash well_formed_path))))"

section \<open>Router\<close>

subsection \<open>The static lookup: a dict keyed by route objects\<close>

text \<open>
  \<open>_Route.__eq__\<close> compares the segments of the two routes; when reading either
  \<open>segments\<close> slot raises \<open>AttributeError\<close> it returns \<open>NotImplemented\<close> (here
  \<open>None\<close>).
\<close>

definition route_eq :: "'h route \<Rightarrow> 'h route \<Rightarrow> bool option" where
  "route_eq self other =
     (case segments self of
        None \<Rightarrow> None
      | Some mine \<Rightarrow>
          (case segments other of
             None \<Rightarrow> None
           | Some theirs \<Rightarrow> Some (mine = theirs)))"

text \<open>
  \<open>a == b\<close>: the method of the left operand, then the reflected one, and when both
  return \<open>NotImplemented\<close> the identity of the two objects.
\<close>

definition py_eq :: "'h route \<Rightarrow> 'h route \<Rightarrow> bool" where
  "py_eq a b =
     (case route_eq a b of
        Some r \<Rightarrow> r
      | None \<Rightarrow> (case route_eq b a of Some r \<Rightarrow> r | None \<Rightarrow> oid a = oid b))"

text \<open>
  A dict finds a stored key for a probe when they are the same object, or when their
  hashes are equal and the stored key \<open>==\<close> the probe. The dict is kept as the list of
  its entries in insertion order; assigning to a key that is found replaces the value
  and keeps the stored key.
\<close>

definition key_match :: "'h route \<Rightarrow> 'h route \<Rightarrow> bool" where
  "key_match stored probe =
     (oid stored = oid probe \<or> (rhash stored = rhash probe \<and> py_eq stored probe))"

fun dict_get :: "('h route \<times> 'v) list \<Rightarrow> 'h route \<Rightarrow> 'v option" where
  "dict_get [] k = None"
| "dict_get ((stored, v) # d) k =
     (if key_match stored k then Some v else dict_get d k)"

fun dict_set :: "('h route \<times> 'v) list \<Rightarrow> 'h route \<Rightarrow> 'v \<Rightarrow> ('h route \<times> 'v) list" where
  "dict_set [] k v = [(k, v)]"
| "dict_set ((stored, v') # d) k v =
     (if key_match stored k then (stored, v) # d else (stored, v') # dict_set d k v)"

definition empty_node :: "'h node" where
  "empty_node = Node (\<lambda>k. None) None"

definition new_router :: "'h router" where
  "new_router = \<lparr>static_lookup = [], dynamic_lookup = empty_node\<rparr>"

subsection \<open>Dispatch\<close>

text \<open>
  \<open>segment in current_lookup\<close> for a segment of the incoming route: a string is looked
  up as a key; a \<open>_CaptureSegment\<close> object equals no key of the tree.
\<close>

fun lookup_segment :: "'h node \<Rightarrow> segment \<Rightarrow> 'h node option" where
  "lookup_segment current_lookup (Literal s) = children current_lookup (Str s)"
| "lookup_segment current_lookup (CaptureSegment n) = None"

fun dispatch_walk :: "'h node \<Rightarrow> segment list \<Rightarrow> error + 'h node" where
  "dispatch_walk current_lookup [] = Inr current_lookup"
| "dispatch_walk current_lookup (seg # rest) =
     (case lookup_segment current_lookup seg of
        Some child \<Rightarrow> dispatch_walk child rest
      | None \<Rightarrow>
          (case children current_lookup CAPTURE_SEGMENT of
             Some child \<Rightarrow> dispatch_walk child rest
           | None \<Rightarrow> Inl MissingRoute))"

definition dispatch_dynamic :: "'h router \<Rightarrow> 'h route \<Rightarrow> error + 'h route" where
  "dispatch_dynamic self incoming_route =
     (case segments incoming_route of
        None \<Rightarrow> Inl AttributeError
      | Some segs \<Rightarrow>
          (case dispatch_walk (dynamic_lookup self) segs of
             Inl e \<Rightarrow> Inl e
           | Inr current_lookup \<Rightarrow>
               (case terminator current_lookup of
                  Some route \<Rightarrow> Inr route
                | None \<Rightarrow> Inl MissingRoute)))"

text \<open>
  \<open>dispatch\<close> returns the handler alone: the value stored in the static lookup, or the
  \<open>handler\<close> slot of the route found in the tree. The router is returned beside the
  result, as for \<open>register\<close>.
\<close>

definition dispatch :: "'h router \<Rightarrow> 'h route \<Rightarrow> (error + 'h) \<times> 'h router" where
  "dispatch self incoming_route =
     (case dict_get (static_lookup self) incoming_route of
        Some h \<Rightarrow> (Inr h, self)
      | None \<Rightarrow>
          (case dispatch_dynamic self incoming_route of
             Inl e \<Rightarrow> (Inl e, self)
           | Inr route \<Rightarrow>
               (case handler route of
                  None \<Rightarrow> (Inl AttributeError, self)
                | Some h \<Rightarrow> (Inr h, self))))"

subsection \<open>Registration\<close>

text \<open>The key a segment of the registered route is filed under (lines 90 and 91).\<close>

fun trie_key :: "segment \<Rightarrow> tkey" where
  "trie_key (Literal s) = Str s"
| "trie_key (CaptureSegment n) = CAPTURE_SEGMENT"

text \<open>
  The loop of lines 89 to 104: walk down the tree, creating an empty dict where a key
  is missing. The result is the tree after the loop and the dict that
  \<open>current_lookup\<close> refers to when the loop ends.
\<close>

fun walk_extend :: "tkey list \<Rightarrow> 'h node \<Rightarrow> 'h node \<times> 'h node" where
  "walk_extend [] current_lookup = (current_lookup, current_lookup)"
| "walk_extend (k # ks) current_lookup =
     (let (child, final) =
            walk_extend ks
              (case children current_lookup k of
                 Some existing \<Rightarrow> existing
               | None \<Rightarrow> empty_node)
      in (Node ((children current_lookup)(k \<mapsto> child)) (terminator current_lookup),
          final))"

text \<open>
  The body of \<open>register\<close> after the route has been made. In the dynamic branch the
  assignment of line 112 sits inside the \<open>if\<close> of line 109, below its \<open>raise\<close>, so it
  is never executed: the branch ends by raising or by returning with no terminator
  written.
\<close>

definition register_route ::
  "'h route \<Rightarrow> 'h \<Rightarrow> bool \<Rightarrow> 'h router \<Rightarrow> (error + unit) \<times> 'h router" where
  "register_route route h allow_overwrite self =
     (case cls route of
        StaticRoute \<Rightarrow>
          if dict_get (static_lookup self) route \<noteq> None \<and> \<not> allow_overwrite
            then (Inl (ValueError AlreadyFound), self)
          else (Inr (), self\<lparr>static_lookup := dict_set (static_lookup self) route h\<rparr>)
      | DynamicRoute \<Rightarrow>
          (case segments (route\<lparr>handler := Some h\<rparr>) of
             None \<Rightarrow> (Inl AttributeError, self)
           | Some segs \<Rightarrow>
               (let (tree, current_lookup) =
                      walk_extend (map trie_key segs) (dynamic_lookup self)
                in (if terminator current_lookup \<noteq> None \<and> \<not> allow_overwrite
                      then Inl (ValueError AlreadyFound)
                    else Inr (),
                    self\<lparr>dynamic_lookup := tree\<rparr>))))"

definition register ::
  "(segment list \<Rightarrow> int) \<Rightarrow> nat \<Rightarrow> string \<Rightarrow> 'h \<Rightarrow> bool \<Rightarrow> 'h router
     \<Rightarrow> (error + unit) \<times> 'h router" where
  "register hsh a route_str h allow_overwrite self =
     (case make hsh a route_str of
        Inl e \<Rightarrow> (Inl e, self)
      | Inr route \<Rightarrow> register_route route h allow_overwrite self)"

section \<open>Values used to instantiate the properties\<close>

text \<open>
  A hash function to evaluate examples with. Nothing below depends on which function it
  is.
\<close>

definition sample_hash :: "segment list \<Rightarrow> int" where
  "sample_hash segs = int (length segs)"

text \<open>A dict of the tree with no child and the route \<open>r\<close> under the terminator.\<close>

definition leaf :: "'h route \<Rightarrow> 'h node" where
  "leaf r = Node (\<lambda>k. None) (Some r)"

text \<open>
  A router whose tree holds the pattern \<open>/users/{id}\<close> with its route object under the
  terminator, as the comment above line 109 describes the tree, and an incoming route
  whose \<open>segments\<close> slot holds the components of a path. The router itself never
  builds either; they are values of the state on which the properties of registration
  that hold for every router and every route object are instantiated.
\<close>

definition users_route :: "string route" where
  "users_route =
     \<lparr>oid = 7, cls = DynamicRoute, rhash = 2,
      segments = Some [Literal ''users'', CaptureSegment ''id''],
      capture_map = Some [(1, ''id'')], handler = Some ''H1''\<rparr>"

definition users_node :: "string node" where
  "users_node = Node ((\<lambda>k. None)(CAPTURE_SEGMENT \<mapsto> leaf users_route)) None"

definition users_router :: "string router" where
  "users_router =
     \<lparr>static_lookup = [],
      dynamic_lookup = Node ((\<lambda>k. None)(Str ''users'' \<mapsto> users_node)) None\<rparr>"

definition incoming_path :: "string list \<Rightarrow> string route" where
  "incoming_path path =
     \<lparr>oid = 9, cls = StaticRoute, rhash = 0, segments = Some (map Literal path),
      capture_map = None, handler = None\<rparr>"

section \<open>Properties of the route parser\<close>

lemmas formatter_defs =
  formatter_parse_def markup_next_def parse_field_def is_brace_def Let_def

lemmas make_defs =
  make_def make_component_def route_components_def dynamic_route_init_def route_init_def

lemmas dict_defs = key_match_def py_eq_def route_eq_def

lemma make_component_empty: "make_component [] = Inl (ValueError UnpackMismatch)"
  by (simp add: make_component_def formatter_parse_def)

lemma make_loop_empty_component:
  "[] \<in> set components \<Longrightarrow> \<exists>e. make_loop components d segs = Inl e"
proof (induction components arbitrary: d segs)
  case Nil
  then show ?case by simp
next
  case (Cons c cs)
  show ?case
  proof (cases "make_component c")
    case (Inl e)
    then show ?thesis by simp
  next
    case (Inr seg)
    with make_component_empty have "c \<noteq> []" by auto
    with Cons.prems have "[] \<in> set cs" by auto
    from Cons.IH [OF this] Inr show ?thesis by simp
  qed
qed

text \<open>
  C2. The claim: a template whose components are each plain text or one well-formed
  capture parses, into a static route when there is no capture and otherwise into a
  dynamic route with its capture map. The code: a component that is exactly a capture
  has empty literal text, and line 199 raises on empty literal text, so \<open>/{id}\<close> is
  rejected; a capture behind a literal prefix passes the checks, and then the
  constructor of the dynamic route reads the \<open>segments\<close> slot that was never assigned.
  No template yields a dynamic route.
\<close>

theorem make_capture_template_fails:
  "(make hsh a ''/{id}'' :: error + 'h route) = Inl (ValueError SingleCapturePerSegment)
   \<and> (make hsh a ''/x{id}'' :: error + 'h route) = Inl AttributeError"
  by (simp add: make_defs formatter_defs)

text \<open>
  C5. The claim: parsing fails exactly for a component with several placeholders, an
  annotation, an empty name, or text mixed with a placeholder; \<open>{name}\<close> alone is
  accepted and a literal prefix before a capture is rejected. The code does the
  opposite on the last two: \<open>{name}\<close> is rejected by the check of line 199, and
  \<open>user-{name}\<close> passes every check and becomes the capture \<open>name\<close>, the prefix
  dropped.
\<close>

theorem make_component_capture_check_inverted:
  "make_component ''{name}'' = Inl (ValueError SingleCapturePerSegment)
   \<and> make_component ''user-{name}'' = Inr (CaptureSegment ''name'')"
  by (simp add: make_defs formatter_defs)

section \<open>Properties of registration and dispatch\<close>

text \<open>
  C1. The claim: registering a dynamic template stores the route under the terminator
  of the node its segments lead to, and dispatching a matching path then returns the
  handler and the captures. The code: registering \<open>/users/{id}\<close> raises at line 199
  and leaves the router as it was, whatever the router and the handler.
\<close>

theorem register_dynamic_template_rejected:
  "register hsh a ''/users/{id}'' h allow_overwrite self
     = (Inl (ValueError SingleCapturePerSegment), self)"
  by (simp add: register_def make_defs formatter_defs)

text \<open>
  C3. The claim: a second registration of the same template fails as a duplicate
  unless overwriting is allowed. The code: the two registrations of \<open>/a\<close> make two
  route objects (here at addresses 0 and 1); neither has its segments, so they compare
  by identity, the second is not found in the static lookup, and it is stored beside
  the first with no error.
\<close>

theorem register_twice_not_detected:
  "register hsh 1 ''/a'' h2 False (snd (register hsh 0 ''/a'' h1 False new_router))
     = (Inr (),
        \<lparr>static_lookup = [(route_init hsh 0 StaticRoute [Literal ''a''], h1),
                           (route_init hsh 1 StaticRoute [Literal ''a''], h2)],
         dynamic_lookup = empty_node\<rparr>)"
  by (simp add: register_def register_route_def new_router_def make_defs formatter_defs
        dict_defs)

text \<open>
  C4. The claim: dispatching the path of a registered static template returns its
  handler. The code: the route parsed from the incoming path \<open>/a\<close> is a new object
  (address 1) that is not found among the keys of the static lookup, and the walk of
  the tree then reads its unassigned \<open>segments\<close> slot.
\<close>

theorem dispatch_registered_static_raises:
  "(parse hsh 1 ''/a'' :: error + 'h route) = Inr (route_init hsh 1 StaticRoute [Literal ''a''])
   \<and> fst (dispatch (snd (register hsh 0 ''/a'' h False new_router))
              (route_init hsh 1 StaticRoute [Literal ''a''])) = Inl AttributeError"
  by (simp add: parse_def dispatch_def dispatch_dynamic_def register_def
        register_route_def new_router_def make_defs formatter_defs dict_defs)

text \<open>
  C10. A template that still has an empty component after the leading one is dropped
  cannot be registered: the formatter yields no item for the empty component, the
  unpacking of line 183 raises, and the router is left as it was. (When an earlier
  component is malformed, its error is the one raised.)
\<close>

theorem register_empty_component_fails:
  assumes "[] \<in> set (route_components route_str)"
  shows "\<exists>e. register hsh a route_str h allow_overwrite self = (Inl e, self)"
proof -
  from make_loop_empty_component [OF assms, of False "[]"]
  obtain e where "make_loop (route_components route_str) False [] = Inl e" by blast
  then show ?thesis by (simp add: register_def make_def)
qed

theorem register_empty_component_fails_witness:
  "[] \<in> set (route_components ''/'')
   \<and> [] \<in> set (route_components ''/a/'')
   \<and> [] \<in> set (route_components ''/a//b'')
   \<and> (\<exists>e. register sample_hash 0 ''/'' (0::nat) False new_router = (Inl e, new_router))
   \<and> (\<exists>e. register sample_hash 0 ''/a/'' (0::nat) False new_router = (Inl e, new_router))
   \<and> (\<exists>e. register sample_hash 0 ''/a//b'' (0::nat) False new_router = (Inl e, new_router))"
proof -
  have r: "[] \<in> set (route_components ''/'')" by (simp add: route_components_def)
  have t: "[] \<in> set (route_components ''/a/'')" by (simp add: route_components_def)
  have d: "[] \<in> set (route_components ''/a//b'')" by (simp add: route_components_def)
  show ?thesis
    using r t d
      register_empty_component_fails [OF r, of sample_hash 0 "0::nat" False new_router]
      register_empty_component_fails [OF t, of sample_hash 0 "0::nat" False new_router]
      register_empty_component_fails [OF d, of sample_hash 0 "0::nat" False new_router]
    by blast
qed

text \<open>
  The walk of \<open>register\<close> extends the tree before line 109 looks for a terminator.
  A dict created during the walk is empty, so a terminator at the end of the walk means
  that every dict on the way was there before, and then the walk changed nothing.
\<close>

lemma walk_extend_fresh:
  "terminator (snd (walk_extend ks empty_node)) = (None :: 'h route option)"
  by (induction ks) (simp_all add: empty_node_def split_beta)

lemma walk_extend_unchanged:
  "terminator (snd (walk_extend ks n)) \<noteq> None \<Longrightarrow> fst (walk_extend ks n) = n"
proof (induction ks arbitrary: n)
  case Nil
  then show ?case by simp
next
  case (Cons k ks)
  show ?case
  proof (cases "children n k")
    case None
    with Cons.prems walk_extend_fresh [of ks, where ?'h = 'a] show ?thesis
      by (simp add: split_beta)
  next
    case (Some existing)
    with Cons.prems have "terminator (snd (walk_extend ks existing)) \<noteq> None"
      by (simp add: split_beta)
    from Cons.IH [OF this] have "fst (walk_extend ks existing) = existing" .
    with Some have "(children n)(k \<mapsto> fst (walk_extend ks existing)) = children n"
      by (simp add: map_upd_triv)
    with Some show ?thesis by (simp add: split_beta)
  qed
qed

lemma register_route_failure:
  "fst (register_route route h ow self) = Inl e \<Longrightarrow>
     snd (register_route route h ow self) = self"
  by (cases "cls route")
     (auto simp: register_route_def split_beta Let_def walk_extend_unchanged
           split: if_splits option.splits)

text \<open>
  C7. A registration that fails leaves the static lookup and the tree as they were, and
  so every later dispatch answers as before. This holds for \<open>register\<close> on a template
  string, whatever the error, and for the body of \<open>register\<close> on any route object and
  any router, which covers the duplicate check of the dynamic branch although that
  check comes after the walk that extends the tree.
\<close>

theorem register_failure_atomic:
  "(fst (register hsh a route_str h allow_overwrite self) = Inl e \<longrightarrow>
      snd (register hsh a route_str h allow_overwrite self) = self
      \<and> dispatch (snd (register hsh a route_str h allow_overwrite self)) incoming
          = dispatch self incoming)
   \<and> (fst (register_route route h allow_overwrite self) = Inl e \<longrightarrow>
      snd (register_route route h allow_overwrite self) = self
      \<and> dispatch (snd (register_route route h allow_overwrite self)) incoming
          = dispatch self incoming)"
proof -
  have "fst (register hsh a route_str h allow_overwrite self) = Inl e \<Longrightarrow>
        snd (register hsh a route_str h allow_overwrite self) = self"
    by (cases "make hsh a route_str :: error + 'a route")
       (simp_all add: register_def register_route_failure)
  then show ?thesis
    using register_route_failure [of route h allow_overwrite self e] by auto
qed

theorem register_failure_atomic_witness:
  "fst (register sample_hash 0 ''/{}'' ''H'' False users_router) = Inl (ValueError MustBeNamed)
   \<and> snd (register sample_hash 0 ''/{}'' ''H'' False users_router) = users_router
   \<and> fst (register_route (users_route\<lparr>oid := 8\<rparr>) ''H2'' False users_router)
         = Inl (ValueError AlreadyFound)
   \<and> snd (register_route (users_route\<lparr>oid := 8\<rparr>) ''H2'' False users_router)
         = users_router"
proof -
  have invalid:
    "fst (register sample_hash 0 ''/{}'' ''H'' False users_router)
       = Inl (ValueError MustBeNamed)"
    by (simp add: register_def make_defs formatter_defs)
  have duplicate:
    "fst (register_route (users_route\<lparr>oid := 8\<rparr>) ''H2'' False users_router)
       = Inl (ValueError AlreadyFound)"
    by (simp add: register_route_def users_route_def users_router_def users_node_def
          leaf_def split_beta)
  show ?thesis
    using invalid duplicate
      register_failure_atomic [of sample_hash 0 "''/{}''" "''H''" False users_router
        "ValueError MustBeNamed"]
      register_failure_atomic [of _ _ _ "''H2''" False users_router
        "ValueError AlreadyFound" _ "users_route\<lparr>oid := 8\<rparr>"]
    by simp
qed

text \<open>
  C9. Registering a static route leaves the tree as it was, registering a dynamic route
  leaves the static lookup as it was, and dispatch changes neither. The first two are
  stated for the body of \<open>register\<close> on any route object of the class, and the first
  also for \<open>register\<close> on a template that \<open>make\<close> turns into a static route.
\<close>

theorem register_dispatch_frame:
  "(cls route = StaticRoute \<longrightarrow>
      dynamic_lookup (snd (register_route route h allow_overwrite self))
        = dynamic_lookup self)
   \<and> (cls route = DynamicRoute \<longrightarrow>
      static_lookup (snd (register_route route h allow_overwrite self))
        = static_lookup self)
   \<and> (make hsh a route_str = Inr route \<longrightarrow> cls route = StaticRoute \<longrightarrow>
      dynamic_lookup (snd (register hsh a route_str h allow_overwrite self))
        = dynamic_lookup self)
   \<and> snd (dispatch self incoming) = self"
  by (auto simp: register_def register_route_def dispatch_def split_beta
           split: option.splits sum.splits)

theorem register_dispatch_frame_witness:
  "cls (route_init sample_hash 0 StaticRoute [Literal ''a''] :: string route) = StaticRoute
   \<and> cls users_route = DynamicRoute
   \<and> make sample_hash 0 ''/a''
        = Inr (route_init sample_hash 0 StaticRoute [Literal ''a''] :: string route)
   \<and> dynamic_lookup (snd (register_route (route_init sample_hash 0 StaticRoute [Literal ''a''])
                             ''H'' False users_router)) = dynamic_lookup users_router
   \<and> static_lookup (snd (register_route users_route ''H'' True users_router))
        = static_lookup users_router
   \<and> dynamic_lookup (snd (register sample_hash 0 ''/a'' ''H'' False users_router))
        = dynamic_lookup users_router
   \<and> snd (dispatch users_router (incoming_path [''users'', ''42''])) = users_router"
proof -
  have s: "cls (route_init sample_hash 0 StaticRoute [Literal ''a''] :: string route)
             = StaticRoute"
    by (simp add: route_init_def)
  have d: "cls users_route = DynamicRoute" by (simp add: users_route_def)
  have m: "make sample_hash 0 ''/a''
             = Inr (route_init sample_hash 0 StaticRoute [Literal ''a''] :: string route)"
    by (simp add: make_defs formatter_defs)
  show ?thesis
    using s d m
      register_dispatch_frame [of "route_init sample_hash 0 StaticRoute [Literal ''a'']"
         "''H''" False users_router sample_hash 0 "''/a''"
         "incoming_path [''users'', ''42'']"]
      register_dispatch_frame [of users_route "''H''" True users_router]
    by simp
qed

text \<open>
  No template makes a dynamic route: the constructor of the dynamic route always
  raises. So \<open>register\<close> never reaches the branch that extends the tree.
\<close>

lemma make_static_only:
  "make hsh a route_str = Inr route \<Longrightarrow> cls route = StaticRoute"
  by (auto simp: make_def dynamic_route_init_def route_init_def
           split: sum.splits prod.splits if_splits)

text \<open>
  C6. The claim: the walk of dispatch goes through the segments of the incoming path in
  order, takes the literal child when there is one, else the wildcard child, and fails
  with \<open>MissingRoute\<close> as soon as a segment has neither. The code: the route that
  \<open>_StaticRoute.parse\<close> builds from the incoming path never has its \<open>segments\<close>
  slot assigned, so on every router the walk raises \<open>AttributeError\<close> at line 47
  before it looks at the first segment; dispatching \<open>/a/b/c\<close> on a new router, where
  the first segment has neither child, does not give \<open>MissingRoute\<close>. Nor is there
  ever a child to prefer: no registration changes the tree.
\<close>

theorem dispatch_dynamic_parsed_route_raises:
  "(parse hsh a ''/a/b/c'' :: error + 'h route)
     = Inr (route_init hsh a StaticRoute [Literal ''a'', Literal ''b'', Literal ''c''])
   \<and> dispatch_dynamic (self :: 'h router) (route_init hsh a StaticRoute segs)
        = Inl AttributeError
   \<and> fst (dispatch new_router
              (route_init hsh a StaticRoute [Literal ''a'', Literal ''b'', Literal ''c'']))
        = Inl AttributeError
   \<and> dynamic_lookup (snd (register hsh a' route_str h allow_overwrite self))
        = dynamic_lookup self"
proof -
  have tree: "dynamic_lookup (snd (register hsh a' route_str h allow_overwrite self))
                = dynamic_lookup self"
  proof (cases "make hsh a' route_str :: error + 'h route")
    case (Inl e)
    then show ?thesis by (simp add: register_def)
  next
    case (Inr route)
    with make_static_only [OF Inr] show ?thesis
      by (simp add: register_def register_route_def)
  qed
  have "(parse hsh a ''/a/b/c'' :: error + 'h route)
          = Inr (route_init hsh a StaticRoute [Literal ''a'', Literal ''b'', Literal ''c''])"
    by (simp add: parse_def)
  moreover have "dispatch_dynamic self (route_init hsh a StaticRoute segs)
                   = Inl AttributeError"
    by (simp add: dispatch_dynamic_def route_init_def)
  moreover have "fst (dispatch new_router
              (route_init hsh a StaticRoute [Literal ''a'', Literal ''b'', Literal ''c'']))
        = Inl AttributeError"
    by (simp add: dispatch_def dispatch_dynamic_def new_router_def route_init_def)
  ultimately show ?thesis using tree by simp
qed

section \<open>The two parsers on paths without placeholders\<close>

text \<open>
  C8. The claim: on every path without placeholder markers the incoming-path parser and
  the template parser produce equal static routes. The code: for \<open>/a\<close> both return a
  static route made from the segment \<open>a\<close>, but the two objects (here at addresses 0
  and 1) are not equal: neither has its segments, \<open>__eq__\<close> returns \<open>NotImplemented\<close>
  both ways and the comparison falls back to identity, so one is not found as a key
  where the other is stored. For \<open>/\<close> the template parser raises in the unpacking of
  line 183, which is guarded only against more than one item, while the incoming-path
  parser returns the route of the one empty segment.
\<close>

theorem make_parse_routes_not_equal:
  "(make hsh 0 ''/a'' :: error + 'h route) = Inr (route_init hsh 0 StaticRoute [Literal ''a''])
   \<and> (parse hsh 1 ''/a'' :: error + 'h route)
        = Inr (route_init hsh 1 StaticRoute [Literal ''a''])
   \<and> py_eq (route_init hsh 0 StaticRoute [Literal ''a''] :: 'h route)
        (route_init hsh 1 StaticRoute [Literal ''a'']) = False
   \<and> key_match (route_init hsh 0 StaticRoute [Literal ''a''] :: 'h route)
        (route_init hsh 1 StaticRoute [Literal ''a'']) = False
   \<and> (make hsh 0 ''/'' :: error + 'h route) = Inl (ValueError UnpackMismatch)
   \<and> (parse hsh 1 ''/'' :: error + 'h route)
        = Inr (route_init hsh 1 StaticRoute [Literal []])"
  by (simp add: parse_def make_defs formatter_defs dict_defs)

end
